theory Spec2Isabelle
  imports Main "HOL-Library.AList"
begin

section \<open>JavaScript values used by the session synchronization core\<close>

text \<open>
  Strings are character lists. \<open>String.prototype.trim\<close> strips white space and line
  terminators from both ends; of those, the code units below 256 are TAB, LF, VT, FF, CR,
  SPACE and NBSP.
\<close>

definition is_space :: "char \<Rightarrow> bool" where
  "is_space c = ((of_char c :: nat) \<in> {9, 10, 11, 12, 13, 32, 160})"

definition trim :: "string \<Rightarrow> string" where
  "trim s = rev (dropWhile is_space (rev (dropWhile is_space s)))"

text \<open>
  Session identifiers are JavaScript numbers holding integers. \<open>String(n)\<close> writes one in
  decimal; \<open>!n\<close> is true of \<open>null\<close> and of \<open>0\<close>; \<open>!s\<close> is true of \<open>null\<close> and of the
  empty string.
\<close>

fun string_of_nat :: "nat \<Rightarrow> string" where
  "string_of_nat n =
     (if n < 10 then [char_of (48 + n)]
      else string_of_nat (n div 10) @ [char_of (48 + n mod 10)])"

declare string_of_nat.simps [simp del]

definition String :: "int \<Rightarrow> string" where
  "String i = (if i < 0 then CHR ''-'' # string_of_nat (nat (- i)) else string_of_nat (nat i))"

definition not_number :: "int option \<Rightarrow> bool" where
  "not_number n = (case n of None \<Rightarrow> True | Some i \<Rightarrow> i = 0)"

definition not_string :: "string option \<Rightarrow> bool" where
  "not_string s = (case s of None \<Rightarrow> True | Some t \<Rightarrow> t = [])"

section \<open>The browser: durable store, notification bus, network\<close>

text \<open>
  \<open>localStorage\<close> is a string-keyed dictionary, kept as an association list. Every write
  to it, every event dispatched on \<open>window\<close> and every request started with \<open>fetch\<close> is
  appended to the list \<open>effects\<close>, in program order.
\<close>

datatype event =
    sessionsUpdated
  | sessionChange int
  | createNewChat

datatype request =
    GET_sessions "string option"
  | POST_sessions "string option" "string option"
  | DELETE_sessions "string option"
  | GET_messages "string option" int
  | POST_message "string option" int string

datatype effect =
    SetItem string string
  | RemoveItem string
  | Dispatch event
  | Fetch request

record browser =
  localStorage :: "(string \<times> string) list"
  effects :: "effect list"

definition getItem :: "string \<Rightarrow> browser \<Rightarrow> string option" where
  "getItem k b = map_of (localStorage b) k"

definition setItem :: "string \<Rightarrow> string \<Rightarrow> browser \<Rightarrow> browser" where
  "setItem k v b =
     b\<lparr>localStorage := AList.update k v (localStorage b), effects := effects b @ [SetItem k v]\<rparr>"

definition removeItem :: "string \<Rightarrow> browser \<Rightarrow> browser" where
  "removeItem k b =
     b\<lparr>localStorage := AList.delete k (localStorage b), effects := effects b @ [RemoveItem k]\<rparr>"

definition dispatchEvent :: "event \<Rightarrow> browser \<Rightarrow> browser" where
  "dispatchEvent e b = b\<lparr>effects := effects b @ [Dispatch e]\<rparr>"

definition fetch :: "request \<Rightarrow> browser \<Rightarrow> browser" where
  "fetch r b = b\<lparr>effects := effects b @ [Fetch r]\<rparr>"

text \<open>
  How an awaited \<open>fetch\<close> settles: the promise rejects, or it resolves to a response whose
  \<open>ok\<close> flag is false (with a body that \<open>res.text()\<close> can read or not), or to one whose
  \<open>ok\<close> flag is true (with a body that \<open>res.json()\<close> parses to a value, or fails on).
\<close>

datatype 'a reply =
    NetworkError
  | HttpError bool
  | HttpOk "'a option"

text \<open>How a call of an \<open>async\<close> function ends: its promise resolves or rejects.\<close>

datatype completion = Returned | Threw


definition new_effects :: "browser \<Rightarrow> browser \<Rightarrow> effect list" where
  "new_effects b b' = drop (length (effects b)) (effects b')"

section \<open>ChatScreen (the conversation controller)\<close>

datatype role = user | bot

type_synonym ChatMessage = "role \<times> string"

text \<open>
  One element of the array returned by \<open>GET /sessions/{id}/messages\<close>: \<open>message\<close> and
  \<open>response\<close>, the latter \<open>null\<close> (or missing) when there is no reply.
\<close>

datatype exchange = Exchange (message: string) (response: "string option")

record chat_screen =
  messages :: "ChatMessage list"
  input :: string
  sessionId :: "int option"
  isLoading :: bool

text \<open>
  \<open>data.flatMap(m => [{role: "user", text: m.message}, m.response && {role: "bot", text:
  m.response}]).filter(Boolean)\<close>. The second element of each pair is the falsy
  \<open>m.response\<close> itself when that is \<open>null\<close> or empty; \<open>None\<close> stands for such a falsy
  element, which \<open>filter(Boolean)\<close> then drops.
\<close>

definition flatMap_entry :: "exchange \<Rightarrow> ChatMessage option list" where
  "flatMap_entry m =
     [Some (user, message m),
      (if not_string (response m) then None else Some (bot, the (response m)))]"

definition flatten :: "exchange list \<Rightarrow> ChatMessage list" where
  "flatten data = List.map_filter (\<lambda>x. x) (concat (map flatMap_entry data))"

definition fetchMessages ::
  "int \<Rightarrow> exchange list reply \<Rightarrow> chat_screen \<times> browser \<Rightarrow> completion \<times> chat_screen \<times> browser" where
  "fetchMessages sid res s =
     (let (cs, b) = s; token = getItem ''token'' b in
      if not_string token \<or> sid = 0 then (Returned, cs, b)
      else
        let b1 = fetch (GET_messages token sid) b in
        case res of
          NetworkError \<Rightarrow> (Threw, cs, b1)
        | HttpError _ \<Rightarrow> (Returned, cs, b1)
        | HttpOk None \<Rightarrow> (Threw, cs, b1)
        | HttpOk (Some data) \<Rightarrow> (Returned, cs\<lparr>messages := flatten data\<rparr>, b1))"


text \<open>
  \<open>handleSend\<close> suspends at its awaited requests. It is modelled by the code between the
  suspension points: \<open>handleSend_enter\<close> runs from the call to the first request,
  \<open>handleSend_created\<close> from the settling of the session-creation request to the send
  request, \<open>handleSend_replied\<close> from the settling of the send request to the end.
  \<open>pending\<close> says where the call stands: finished, or waiting on a request (with the local
  variables \<open>msg\<close> and \<open>currentSessionId\<close> the rest of the body uses).
\<close>

datatype pending =
    Done completion
  | Await_create string
  | Await_send int string

definition apology_status :: string where
  "apology_status = ''I'm having trouble connecting right now. Please try again in a moment.''"

definition apology_network :: string where
  "apology_network =
     ''Sorry, there seems to be a connection issue. Please check your internet and try again.''"

definition handleSend_post ::
  "string \<Rightarrow> int \<Rightarrow> chat_screen \<times> browser \<Rightarrow> pending \<times> chat_screen \<times> browser" where
  "handleSend_post msg currentSessionId s =
     (let (cs, b) = s;
          userMessage = trim msg;
          cs1 = cs\<lparr>input := [], messages := messages cs @ [(user, userMessage)]\<rparr>;
          token = getItem ''token'' b in
      (Await_send currentSessionId msg, cs1, fetch (POST_message token currentSessionId msg) b))"

definition handleSend_enter ::
  "string \<Rightarrow> chat_screen \<times> browser \<Rightarrow> pending \<times> chat_screen \<times> browser" where
  "handleSend_enter msg s =
     (let (cs, b) = s in
      if trim msg = [] then (Done Returned, cs, b)
      else
        let cs1 = cs\<lparr>isLoading := True\<rparr> in
        if not_number (sessionId cs) then
          (Await_create msg, cs1, fetch (POST_sessions (getItem ''token'' b) (Some msg)) b)
        else handleSend_post msg (the (sessionId cs)) (cs1, b))"

definition handleSend_created ::
  "string \<Rightarrow> int reply \<Rightarrow> chat_screen \<times> browser \<Rightarrow> pending \<times> chat_screen \<times> browser" where
  "handleSend_created msg res s =
     (let (cs, b) = s in
      case res of
        NetworkError \<Rightarrow> (Done Threw, cs, b)
      | HttpError _ \<Rightarrow> (Done Returned, cs\<lparr>isLoading := False\<rparr>, b)
      | HttpOk None \<Rightarrow> (Done Threw, cs, b)
      | HttpOk (Some i) \<Rightarrow>
          handleSend_post msg i
            (cs\<lparr>sessionId := Some i\<rparr>,
             dispatchEvent sessionsUpdated (setItem ''activeSession'' (String i) b)))"

definition handleSend_replied ::
  "string reply \<Rightarrow> chat_screen \<times> browser \<Rightarrow> completion \<times> chat_screen \<times> browser" where
  "handleSend_replied res s =
     (let (cs, b) = s;
          (cs1, b1) =
            (case res of
               HttpOk (Some answer) \<Rightarrow>
                 (cs\<lparr>messages := messages cs @ [(bot, answer)]\<rparr>, dispatchEvent sessionsUpdated b)
             | HttpError True \<Rightarrow> (cs\<lparr>messages := messages cs @ [(bot, apology_status)]\<rparr>, b)
             | _ \<Rightarrow> (cs\<lparr>messages := messages cs @ [(bot, apology_network)]\<rparr>, b)) in
      (Returned, cs1\<lparr>isLoading := False\<rparr>, b1))"

text \<open>
  A whole call of \<open>handleSend\<close>, given how its two requests settle (a request that is not
  made ignores its reply).
\<close>

definition handleSend ::
  "string \<Rightarrow> int reply \<Rightarrow> string reply \<Rightarrow> chat_screen \<times> browser
     \<Rightarrow> completion \<times> chat_screen \<times> browser" where
  "handleSend msg created replied s =
     (case handleSend_enter msg s of
        (Done c, s1) \<Rightarrow> (c, s1)
      | (Await_send _ _, s1) \<Rightarrow> handleSend_replied replied s1
      | (Await_create m, s1) \<Rightarrow>
          (case handleSend_created m created s1 of
             (Done c, s2) \<Rightarrow> (c, s2)
           | (Await_send _ _, s2) \<Rightarrow> handleSend_replied replied s2
           | (Await_create _, s2) \<Rightarrow> (Threw, s2)))"

section \<open>SidebarConversationList (the session directory)\<close>

datatype ChatSession = ChatSession (session_id: int) (session_name: string)

record sidebar =
  sessions :: "ChatSession list"
  activeId :: "int option"
  showConfirm :: bool
  deleting :: bool

text \<open>
  The effect that reloads the directory. \<open>data.find(s => s.id === activeId)\<close> is
  \<open>undefined\<close> exactly when no fetched session carries the identifier.
\<close>

definition fetchSessions ::
  "ChatSession list reply \<Rightarrow> sidebar \<times> browser \<Rightarrow> completion \<times> sidebar \<times> browser" where
  "fetchSessions res s =
     (let (sb, b) = s; token = getItem ''token'' b in
      if not_string token then (Returned, sb, b)
      else
        let b1 = fetch (GET_sessions token) b in
        case res of
          NetworkError \<Rightarrow> (Threw, sb, b1)
        | HttpError _ \<Rightarrow> (Returned, sb, b1)
        | HttpOk None \<Rightarrow> (Threw, sb, b1)
        | HttpOk (Some data) \<Rightarrow>
            let sb1 = sb\<lparr>sessions := data\<rparr> in
            if (not_number (activeId sb)
                \<or> find (\<lambda>c. Some (session_id c) = activeId sb) data = None)
               \<and> length data > 0
            then
              (Returned, sb1\<lparr>activeId := Some (session_id (data ! 0))\<rparr>,
               dispatchEvent (sessionChange (session_id (data ! 0)))
                 (setItem ''activeSession'' (String (session_id (data ! 0))) b1))
            else (Returned, sb1, b1))"


text \<open>The \<open>onClick\<close> handler of the "Yes, clear all" button.\<close>

definition clearAll ::
  "unit reply \<Rightarrow> sidebar \<times> browser \<Rightarrow> completion \<times> sidebar \<times> browser" where
  "clearAll res s =
     (let (sb, b) = s; sb1 = sb\<lparr>deleting := True\<rparr>; token = getItem ''token'' b in
      if not_string token then (Returned, sb1, b)
      else
        let b1 = fetch (DELETE_sessions token) b in
        case res of
          NetworkError \<Rightarrow> (Threw, sb1, b1)
        | _ \<Rightarrow>
            (Returned,
             sb1\<lparr>sessions := [], activeId := None, deleting := False, showConfirm := False\<rparr>,
             dispatchEvent createNewChat
               (dispatchEvent sessionsUpdated (removeItem ''activeSession'' b1))))"

section \<open>ChatInputBar and FeatureCards (the entry points of a send)\<close>

text \<open>
  Both components are stateless towards the controller: a handler calls the callbacks it
  was given as props. A handler is modelled by the calls it makes, in order.
\<close>

datatype call =
    OnSend string
  | SetInput string
  | SetShowSuggestions bool

definition ChatInputBar_handleSend :: "string \<Rightarrow> bool \<Rightarrow> call list" where
  "ChatInputBar_handleSend inp loading =
     (if trim inp \<noteq> [] \<and> \<not> loading
      then [OnSend (trim inp), SetInput [], SetShowSuggestions False]
      else [])"

definition handleSuggestionClick :: "string \<Rightarrow> call list" where
  "handleSuggestionClick suggestion =
     [SetInput suggestion, SetShowSuggestions False, OnSend suggestion]"

definition cards :: "string list" where
  "cards =
     [''I want to find universities that match my GPA and English scores for Undergraduate/Postgraduate.'',
      ''I have English subject grade B+, which universities offer IELTS waiver?'',
      ''Show me available UK scholarships for Nepalese students.'',
      ''What are the latest document requirements for a UK study visa?'',
      ''List the most affordable universities in the UK for international students.'',
      ''What is the average monthly living cost for a student in London?'']"

definition FeatureCards_onClick :: "nat \<Rightarrow> call list" where
  "FeatureCards_onClick i = (if i < length cards then [OnSend (cards ! i)] else [])"

definition quickSuggestions :: "string list" where
  "quickSuggestions =
     [''Show me computer science universities'',
      ''What are visa requirements?'',
      ''Living costs in London?'',
      ''Scholarship opportunities'',
      ''Application deadlines'',
      ''I want to study engineering'']"

section \<open>MainChat: what is rendered, and what the user can do\<close>

text \<open>
  ChatScreen hands \<open>messages\<close>, \<open>handleSend\<close>, \<open>input\<close>, \<open>setInput\<close> and \<open>isLoading\<close> to
  MainChat, which passes them on unchanged to ChatInputBar (always rendered) and gives
  \<open>handleSend\<close> to FeatureCards as \<open>onPrompt\<close>. The view is the controller's state,
  ChatInputBar's \<open>showSuggestions\<close>, the calls of \<open>handleSend\<close> that are suspended on a
  request (oldest first), and the browser.
\<close>

record view =
  screen :: chat_screen
  showSuggestions :: bool
  awaiting :: "pending list"
  page :: browser

text \<open>
  The calls a handler makes act on the view in order. A call of \<open>handleSend\<close> runs to its
  first suspension point and, unless it has returned, joins the suspended calls.
\<close>

fun run_calls :: "call list \<Rightarrow> view \<Rightarrow> view" where
  "run_calls [] v = v"
| "run_calls (OnSend m # cs) v =
     (case handleSend_enter m (screen v, page v) of
        (Done _, c, b) \<Rightarrow> run_calls cs (v\<lparr>screen := c, page := b\<rparr>)
      | (p, c, b) \<Rightarrow> run_calls cs (v\<lparr>screen := c, page := b, awaiting := awaiting v @ [p]\<rparr>))"
| "run_calls (SetInput x # cs) v = run_calls cs (v\<lparr>screen := (screen v)\<lparr>input := x\<rparr>\<rparr>)"
| "run_calls (SetShowSuggestions x # cs) v = run_calls cs (v\<lparr>showSuggestions := x\<rparr>)"

text \<open>
  What can happen to the view: a user action on an element, or the settling of the
  request a suspended call waits on. \<open>step\<close> is \<open>None\<close> when the action is not possible:
  \<^item> FeatureCards is rendered only while \<open>messages\<close> is empty;
  \<^item> the suggestion panel is rendered only while \<open>showSuggestions\<close> is set;
  \<^item> the send button is disabled while the input is blank or \<open>isLoading\<close> is set;
  \<^item> the input element is disabled while \<open>isLoading\<close> is set, so it takes no focus,
    change or key;
  \<^item> a request settles only for the suspended call that waits on it.
  \<open>Blur_timeout\<close> is the timer that hides the panel 200 ms after the input lost focus.
\<close>

datatype action =
    Click_card nat
  | Click_suggestion nat
  | Click_send
  | Key_enter
  | Key_escape
  | Focus_input
  | Change_input string
  | Blur_timeout
  | Created nat "int reply"
  | Replied nat "string reply"

definition without :: "nat \<Rightarrow> 'a list \<Rightarrow> 'a list" where
  "without k xs = take k xs @ drop (Suc k) xs"

fun step :: "action \<Rightarrow> view \<Rightarrow> view option" where
  "step (Click_card i) v =
     (if messages (screen v) = [] \<and> i < length cards
      then Some (run_calls (FeatureCards_onClick i) v) else None)"
| "step (Click_suggestion i) v =
     (if showSuggestions v \<and> i < length quickSuggestions
      then Some (run_calls (handleSuggestionClick (quickSuggestions ! i)) v) else None)"
| "step Click_send v =
     (if trim (input (screen v)) = [] \<or> isLoading (screen v) then None
      else Some (run_calls (ChatInputBar_handleSend (input (screen v)) (isLoading (screen v))) v))"
| "step Key_enter v =
     (if isLoading (screen v) then None
      else Some (run_calls (ChatInputBar_handleSend (input (screen v)) (isLoading (screen v))) v))"
| "step Key_escape v =
     (if isLoading (screen v) then None else Some (run_calls [SetShowSuggestions False] v))"
| "step Focus_input v =
     (if isLoading (screen v) then None
      else Some (run_calls (if trim (input (screen v)) = [] then [SetShowSuggestions True] else []) v))"
| "step (Change_input x) v =
     (if isLoading (screen v) then None
      else Some (run_calls (SetInput x # (if trim x \<noteq> [] then [SetShowSuggestions False] else [])) v))"
| "step Blur_timeout v = Some (run_calls [SetShowSuggestions False] v)"
| "step (Created k res) v =
     (if k < length (awaiting v) then
        (case awaiting v ! k of
           Await_create m \<Rightarrow>
             (case handleSend_created m res (screen v, page v) of
                (Done _, c, b) \<Rightarrow>
                  Some (v\<lparr>screen := c, page := b, awaiting := without k (awaiting v)\<rparr>)
              | (p, c, b) \<Rightarrow>
                  Some (v\<lparr>screen := c, page := b, awaiting := (awaiting v)[k := p]\<rparr>))
         | _ \<Rightarrow> None)
      else None)"
| "step (Replied k res) v =
     (if k < length (awaiting v) then
        (case awaiting v ! k of
           Await_send _ _ \<Rightarrow>
             (case handleSend_replied res (screen v, page v) of
                (_, c, b) \<Rightarrow>
                  Some (v\<lparr>screen := c, page := b, awaiting := without k (awaiting v)\<rparr>))
         | _ \<Rightarrow> None)
      else None)"

fun steps :: "action list \<Rightarrow> view \<Rightarrow> view option" where
  "steps [] v = Some v"
| "steps (a # as) v = (case step a v of None \<Rightarrow> None | Some v' \<Rightarrow> steps as v')"

text \<open>
  The view once ChatScreen is mounted with no \<open>activeSession\<close> in the store: the initial
  values of the \<open>useState\<close> hooks, and no request of \<open>handleSend\<close> outstanding.
\<close>

definition mounted :: "browser \<Rightarrow> view" where
  "mounted b =
     \<lparr>screen = \<lparr>messages = [], input = [], sessionId = None, isLoading = False\<rparr>,
      showSuggestions = False, awaiting = [], page = b\<rparr>"

section \<open>Reading the effects and the transcript\<close>

text \<open>The requests among a list of effects, in the order they were started.\<close>

fun requests :: "effect list \<Rightarrow> request list" where
  "requests [] = []"
| "requests (Fetch r # es) = r # requests es"
| "requests (_ # es) = requests es"

text \<open>
  The transcript as the specification words it: each pair gives its \<open>user\<close> entry, followed
  by its \<open>bot\<close> entry unless the response is \<open>null\<close>.
\<close>

fun transcript_as_claimed :: "exchange list \<Rightarrow> ChatMessage list" where
  "transcript_as_claimed [] = []"
| "transcript_as_claimed (m # ms) =
     (case response m of
        None \<Rightarrow> (user, message m) # transcript_as_claimed ms
      | Some r \<Rightarrow> (user, message m) # (bot, r) # transcript_as_claimed ms)"

text \<open>The same, with an empty response treated like \<open>null\<close>.\<close>

fun transcript :: "exchange list \<Rightarrow> ChatMessage list" where
  "transcript [] = []"
| "transcript (m # ms) =
     (case response m of
        None \<Rightarrow> (user, message m) # transcript ms
      | Some r \<Rightarrow>
          if r = [] then (user, message m) # transcript ms
          else (user, message m) # (bot, r) # transcript ms)"

section \<open>Basic facts\<close>

lemma trim_blank: "\<forall>c\<in>set s. is_space c \<Longrightarrow> trim s = []"
  by (auto simp: trim_def dest: set_dropWhileD)

lemma trim_Nil_iff: "trim s = [] \<longleftrightarrow> (\<forall>c\<in>set s. is_space c)"
proof
  assume "trim s = []"
  then have all: "\<forall>c\<in>set (dropWhile is_space s). is_space c"
    by (simp add: trim_def)
  have "dropWhile is_space s = []"
  proof (rule ccontr)
    assume ne: "dropWhile is_space s \<noteq> []"
    then have "\<not> is_space (hd (dropWhile is_space s))" by (rule hd_dropWhile)
    moreover have "hd (dropWhile is_space s) \<in> set (dropWhile is_space s)" using ne by simp
    ultimately show False using all by blast
  qed
  then show "\<forall>c\<in>set s. is_space c" by simp
next
  assume "\<forall>c\<in>set s. is_space c"
  then show "trim s = []" by (rule trim_blank)
qed

lemma getItem_simps:
  "getItem k (setItem k' v b) = (if k = k' then Some v else getItem k b)"
  "getItem k (removeItem k' b) = (if k = k' then None else getItem k b)"
  "getItem k (dispatchEvent e b) = getItem k b"
  "getItem k (fetch r b) = getItem k b"
  by (simp_all add: getItem_def setItem_def removeItem_def dispatchEvent_def fetch_def
      update_conv' delete_conv')

lemma effects_simps:
  "effects (setItem k v b) = effects b @ [SetItem k v]"
  "effects (removeItem k b) = effects b @ [RemoveItem k]"
  "effects (dispatchEvent e b) = effects b @ [Dispatch e]"
  "effects (fetch r b) = effects b @ [Fetch r]"
  by (simp_all add: setItem_def removeItem_def dispatchEvent_def fetch_def)

lemma localStorage_simps:
  "localStorage (setItem k v b) = AList.update k v (localStorage b)"
  "localStorage (removeItem k b) = AList.delete k (localStorage b)"
  "localStorage (dispatchEvent e b) = localStorage b"
  "localStorage (fetch r b) = localStorage b"
  by (simp_all add: setItem_def removeItem_def dispatchEvent_def fetch_def)

lemmas browser_simps = getItem_simps effects_simps localStorage_simps

lemma flatten_Nil: "flatten [] = []"
  by (simp add: flatten_def map_filter_simps)

lemma flatten_Cons:
  "flatten (m # ms) =
     (if not_string (response m) then (user, message m) # flatten ms
      else (user, message m) # (bot, the (response m)) # flatten ms)"
  by (simp add: flatten_def flatMap_entry_def map_filter_simps)

lemma flatten_append: "flatten (xs @ ys) = flatten xs @ flatten ys"
  by (induction xs) (simp_all add: flatten_Nil flatten_Cons)

lemma fetchMessages_replaces_transcript:
  "\<not> not_string (getItem ''token'' b) \<Longrightarrow> sid \<noteq> 0 \<Longrightarrow>
     fetchMessages sid (HttpOk (Some data)) (cs, b)
       = (Returned, cs\<lparr>messages := flatten data\<rparr>, fetch (GET_messages (getItem ''token'' b) sid) b)"
  by (simp add: fetchMessages_def)

lemma no_match_find:
  "activeId sb = None \<or> (\<forall>c\<in>set data. Some (session_id c) \<noteq> activeId sb) \<Longrightarrow>
     not_number (activeId sb) \<or> find (\<lambda>c. Some (session_id c) = activeId sb) data = None"
  by (auto simp: not_number_def find_None_iff)

section \<open>The session directory\<close>

text \<open>
  Claim C1, as the code has it. After a directory fetch that succeeds with a non-empty
  list, if the directory's active identifier is absent or is the identifier of no fetched
  session, the first fetched session becomes the active identifier, is written to the store
  under \<open>activeSession\<close>, and \<open>sessionChange\<close> is dispatched with it (after the write). The
  fetched list replaces the snapshot.
\<close>

theorem auto_select_first_session:
  assumes "\<not> not_string (getItem ''token'' b)"
    and "activeId sb = None \<or> (\<forall>c\<in>set (d # ds). Some (session_id c) \<noteq> activeId sb)"
  shows "case fetchSessions (HttpOk (Some (d # ds))) (sb, b) of (r, sb', b') \<Rightarrow>
           r = Returned
           \<and> sessions sb' = d # ds
           \<and> activeId sb' = Some (session_id d)
           \<and> getItem ''activeSession'' b' = Some (String (session_id d))
           \<and> new_effects b b'
               = [Fetch (GET_sessions (getItem ''token'' b)),
                  SetItem ''activeSession'' (String (session_id d)),
                  Dispatch (sessionChange (session_id d))]"
  using assms(1) no_match_find [OF assms(2)]
  by (simp add: fetchSessions_def browser_simps new_effects_def Let_def)

theorem auto_select_first_session_witness:
  "\<not> not_string (getItem ''token'' \<lparr>localStorage = [(''token'', ''t'')], effects = []\<rparr>)
   \<and> (activeId \<lparr>sessions = [], activeId = Some 9, showConfirm = False, deleting = False\<rparr> = None
      \<or> (\<forall>c\<in>set (ChatSession 3 ''visa'' # [ChatSession 4 ''fees'']).
            Some (session_id c)
              \<noteq> activeId \<lparr>sessions = [], activeId = Some 9, showConfirm = False, deleting = False\<rparr>))
   \<and> fetchSessions (HttpOk (Some (ChatSession 3 ''visa'' # [ChatSession 4 ''fees''])))
       (\<lparr>sessions = [], activeId = Some 9, showConfirm = False, deleting = False\<rparr>,
        \<lparr>localStorage = [(''token'', ''t'')], effects = []\<rparr>)
     = (Returned,
        \<lparr>sessions = [ChatSession 3 ''visa'', ChatSession 4 ''fees''], activeId = Some 3,
         showConfirm = False, deleting = False\<rparr>,
        \<lparr>localStorage = [(''token'', ''t''), (''activeSession'', String 3)],
         effects = [Fetch (GET_sessions (Some ''t'')), SetItem ''activeSession'' (String 3),
                    Dispatch (sessionChange 3)]\<rparr>)"
proof -
  let ?sb = "\<lparr>sessions = [], activeId = Some 9, showConfirm = False, deleting = False\<rparr>"
  let ?b = "\<lparr>localStorage = [(''token'', ''t'')], effects = []\<rparr>"
  have h1: "\<not> not_string (getItem ''token'' ?b)"
    by (simp add: not_string_def getItem_def)
  have h2: "activeId ?sb = None
      \<or> (\<forall>c\<in>set (ChatSession 3 ''visa'' # [ChatSession 4 ''fees'']).
            Some (session_id c) \<noteq> activeId ?sb)"
    by simp
  show ?thesis
    using h1 h2 auto_select_first_session [OF h1 h2]
    by (simp add: fetchSessions_def not_string_def not_number_def getItem_def fetch_def
        setItem_def dispatchEvent_def)
qed

text \<open>
  Claim C1 as stated fails on a successful fetch of an empty list: there is no first
  session, the guard \<open>data.length > 0\<close> skips the selection, nothing is written and
  nothing is dispatched.
\<close>

theorem auto_select_counterexample:
  "fetchSessions (HttpOk (Some []))
     (\<lparr>sessions = [], activeId = None, showConfirm = False, deleting = False\<rparr>,
      \<lparr>localStorage = [(''token'', ''t'')], effects = []\<rparr>)
   = (Returned,
      \<lparr>sessions = [], activeId = None, showConfirm = False, deleting = False\<rparr>,
      \<lparr>localStorage = [(''token'', ''t'')], effects = [Fetch (GET_sessions (Some ''t''))]\<rparr>)"
  by (simp add: fetchSessions_def getItem_def fetch_def not_string_def)

section \<open>Transcript flattening\<close>

text \<open>
  Claim C2, as the code has it. The derived transcript is, for each pair in order, the
  \<open>user\<close> entry of its message followed by the \<open>bot\<close> entry of its response, where a pair
  whose response is \<open>null\<close> or the empty string gives the \<open>user\<close> entry only; the pairs
  \<open>[{A, B}, {C, null}]\<close> give \<open>[(user, A), (bot, B), (user, C)]\<close>.
\<close>

theorem flatten_is_transcript:
  "flatten data = transcript data
   \<and> flatten [Exchange ''A'' (Some ''B''), Exchange ''C'' None]
       = [(user, ''A''), (bot, ''B''), (user, ''C'')]"
proof
  show "flatten data = transcript data"
    by (induction data) (simp_all add: flatten_Nil flatten_Cons not_string_def split: option.splits)
  show "flatten [Exchange ''A'' (Some ''B''), Exchange ''C'' None]
       = [(user, ''A''), (bot, ''B''), (user, ''C'')]"
    by (simp add: flatten_Nil flatten_Cons not_string_def)
qed

theorem flatten_is_transcript_witness:
  "flatten [Exchange ''A'' (Some ''B''), Exchange ''C'' (Some []), Exchange ''D'' None]
     = [(user, ''A''), (bot, ''B''), (user, ''C''), (user, ''D'')]"
  using flatten_is_transcript
    [of "[Exchange ''A'' (Some ''B''), Exchange ''C'' (Some []), Exchange ''D'' None]"]
  by simp

text \<open>
  Claim C2 as stated fails on a pair whose response is the empty string, which is not
  \<open>null\<close>: the claim gives it a \<open>bot\<close> entry, the code gives it none.
\<close>

theorem flatten_counterexample:
  "flatten [Exchange ''A'' (Some '''')] = [(user, ''A'')]
   \<and> transcript_as_claimed [Exchange ''A'' (Some '''')] = [(user, ''A''), (bot, '''')]
   \<and> flatten [Exchange ''A'' (Some '''')] \<noteq> transcript_as_claimed [Exchange ''A'' (Some '''')]"
  by (simp add: flatten_Nil flatten_Cons not_string_def)

section \<open>Sending\<close>

text \<open>
  Claim C3. A call of \<open>handleSend\<close> with a text that is not blank, while no session is
  active, whose session-creation request succeeds with the identifier \<open>i\<close>: the requests
  made are one session creation carrying the text and then one send addressed to \<open>i\<close>, and
  the transcript grows by one \<open>user\<close> entry, the trimmed text, followed by one \<open>bot\<close> entry
  (the answer or an apology), whatever the send request does.
\<close>

theorem implicit_session_creation:
  assumes "trim msg \<noteq> []" and "not_number (sessionId cs)"
  shows "case handleSend msg (HttpOk (Some i)) replied (cs, b) of (r, cs', b') \<Rightarrow>
           requests (new_effects b b')
             = [POST_sessions (getItem ''token'' b) (Some msg),
                POST_message (getItem ''token'' b) i msg]
           \<and> (\<exists>t. messages cs' = messages cs @ [(user, trim msg), (bot, t)])
           \<and> sessionId cs' = Some i"
  using assms
  by (simp add: handleSend_def handleSend_enter_def handleSend_created_def handleSend_post_def
      handleSend_replied_def browser_simps new_effects_def
      split: reply.splits option.splits bool.splits)

theorem implicit_session_creation_witness:
  "trim ''hello'' \<noteq> []
   \<and> not_number (sessionId \<lparr>messages = [], input = ''hello'', sessionId = None, isLoading = False\<rparr>)
   \<and> (case handleSend ''hello'' (HttpOk (Some 5)) (HttpOk (Some ''Hi!''))
          (\<lparr>messages = [], input = ''hello'', sessionId = None, isLoading = False\<rparr>,
           \<lparr>localStorage = [(''token'', ''t'')], effects = []\<rparr>) of
        (r, cs', b') \<Rightarrow>
          requests (new_effects \<lparr>localStorage = [(''token'', ''t'')], effects = []\<rparr> b')
            = [POST_sessions (Some ''t'') (Some ''hello''), POST_message (Some ''t'') 5 ''hello'']
          \<and> messages cs' = [(user, ''hello''), (bot, ''Hi!'')]
          \<and> sessionId cs' = Some 5)"
proof -
  let ?cs = "\<lparr>messages = [], input = ''hello'', sessionId = None, isLoading = False\<rparr>"
  let ?b = "\<lparr>localStorage = [(''token'', ''t'')], effects = []\<rparr>"
  have h1: "trim ''hello'' \<noteq> []" by (simp add: trim_def is_space_def)
  have h2: "not_number (sessionId ?cs)" by (simp add: not_number_def)
  have ev: "handleSend ''hello'' (HttpOk (Some 5)) (HttpOk (Some ''Hi!'')) (?cs, ?b)
      = (Returned,
         \<lparr>messages = [(user, ''hello''), (bot, ''Hi!'')], input = [], sessionId = Some 5,
          isLoading = False\<rparr>,
         \<lparr>localStorage = [(''token'', ''t''), (''activeSession'', String 5)],
          effects = [Fetch (POST_sessions (Some ''t'') (Some ''hello'')),
                     SetItem ''activeSession'' (String 5), Dispatch sessionsUpdated,
                     Fetch (POST_message (Some ''t'') 5 ''hello''), Dispatch sessionsUpdated]\<rparr>)"
    by (simp add: handleSend_def handleSend_enter_def handleSend_created_def handleSend_post_def
        handleSend_replied_def not_number_def trim_def is_space_def getItem_def fetch_def
        setItem_def dispatchEvent_def)
  show ?thesis
    using h1 h2 implicit_session_creation [OF h1 h2, where i = 5 and b = ?b
        and replied = "HttpOk (Some ''Hi!'')"]
    by (simp add: ev new_effects_def)
qed

text \<open>
  Claim C5. A call of \<open>handleSend\<close> with a text that is not blank, while a session is
  active, whose send request is rejected or answered with a status outside 2xx: the call
  returns without throwing, the transcript has grown by the \<open>user\<close> entry and one \<open>bot\<close>
  apology, \<open>isLoading\<close> is false again, the session is still the active one, and the send
  was the only request.
\<close>

theorem send_failure_contained:
  assumes "trim msg \<noteq> []" and "sessionId cs = Some i" and "i \<noteq> 0"
    and "replied = NetworkError \<or> replied = HttpError readable"
  shows "case handleSend msg created replied (cs, b) of (r, cs', b') \<Rightarrow>
           r = Returned
           \<and> (messages cs' = messages cs @ [(user, trim msg), (bot, apology_status)]
              \<or> messages cs' = messages cs @ [(user, trim msg), (bot, apology_network)])
           \<and> isLoading cs' = False
           \<and> sessionId cs' = Some i
           \<and> requests (new_effects b b') = [POST_message (getItem ''token'' b) i msg]"
  using assms
  by (auto simp add: handleSend_def handleSend_enter_def handleSend_post_def
      handleSend_replied_def browser_simps new_effects_def not_number_def split: bool.splits)

theorem send_failure_contained_witness:
  "trim ''fees?'' \<noteq> []
   \<and> sessionId \<lparr>messages = [(user, ''hi'')], input = ''fees?'', sessionId = Some 7,
        isLoading = False\<rparr> = Some 7
   \<and> (7::int) \<noteq> 0
   \<and> ((NetworkError :: string reply) = NetworkError \<or> (NetworkError :: string reply) = HttpError True)
   \<and> handleSend ''fees?'' NetworkError NetworkError
       (\<lparr>messages = [(user, ''hi'')], input = ''fees?'', sessionId = Some 7, isLoading = False\<rparr>,
        \<lparr>localStorage = [(''token'', ''t'')], effects = []\<rparr>)
     = (Returned,
        \<lparr>messages = [(user, ''hi''), (user, ''fees?''), (bot, apology_network)], input = [],
         sessionId = Some 7, isLoading = False\<rparr>,
        \<lparr>localStorage = [(''token'', ''t'')],
         effects = [Fetch (POST_message (Some ''t'') 7 ''fees?'')]\<rparr>)"
proof -
  let ?cs = "\<lparr>messages = [(user, ''hi'')], input = ''fees?'', sessionId = Some 7,
     isLoading = False\<rparr>"
  have h1: "trim ''fees?'' \<noteq> []" by (simp add: trim_def is_space_def)
  have h2: "sessionId ?cs = Some 7" by simp
  have h3: "(7::int) \<noteq> 0" by simp
  have h4: "(NetworkError :: string reply) = NetworkError
      \<or> (NetworkError :: string reply) = HttpError True" by simp
  show ?thesis
    using h1 h2 h3 h4
      send_failure_contained [OF h1 h2 h3 h4, where created = NetworkError
        and b = "\<lparr>localStorage = [(''token'', ''t'')], effects = []\<rparr>"]
    by (simp add: handleSend_def handleSend_enter_def handleSend_post_def handleSend_replied_def
        not_number_def trim_def is_space_def getItem_def fetch_def)
qed

text \<open>
  Claim C6. A call of \<open>handleSend\<close> with a text that is not blank, while no session is
  active, whose session-creation request fails (it is rejected, or answered with a status
  outside 2xx, or with a body that does not parse): the transcript is unchanged, so no
  \<open>user\<close> entry was added; the creation request is the only effect, so no send request
  was made and nothing was dispatched; the controller's session identifier and the store
  are as before. After a status outside 2xx the call returns with \<open>isLoading\<close> false.
\<close>

theorem failed_creation_aborts_send:
  assumes "trim msg \<noteq> []" and "not_number (sessionId cs)"
    and "\<forall>i. created \<noteq> HttpOk (Some i)"
  shows "case handleSend msg created replied (cs, b) of (r, cs', b') \<Rightarrow>
           messages cs' = messages cs
           \<and> new_effects b b' = [Fetch (POST_sessions (getItem ''token'' b) (Some msg))]
           \<and> sessionId cs' = sessionId cs
           \<and> localStorage b' = localStorage b
           \<and> (\<forall>x. created = HttpError x \<longrightarrow> r = Returned \<and> \<not> isLoading cs')"
  using assms
  by (simp add: handleSend_def handleSend_enter_def handleSend_created_def
      browser_simps new_effects_def split: reply.splits option.splits)

theorem failed_creation_aborts_send_witness:
  "trim ''hello'' \<noteq> []
   \<and> not_number (sessionId \<lparr>messages = [], input = ''hello'', sessionId = None, isLoading = False\<rparr>)
   \<and> (\<forall>i. (HttpError True :: int reply) \<noteq> HttpOk (Some i))
   \<and> handleSend ''hello'' (HttpError True) (HttpOk (Some ''Hi!''))
       (\<lparr>messages = [], input = ''hello'', sessionId = None, isLoading = False\<rparr>,
        \<lparr>localStorage = [(''token'', ''t'')], effects = []\<rparr>)
     = (Returned,
        \<lparr>messages = [], input = ''hello'', sessionId = None, isLoading = False\<rparr>,
        \<lparr>localStorage = [(''token'', ''t'')],
         effects = [Fetch (POST_sessions (Some ''t'') (Some ''hello''))]\<rparr>)"
proof -
  let ?cs = "\<lparr>messages = [], input = ''hello'', sessionId = None, isLoading = False\<rparr>"
  have h1: "trim ''hello'' \<noteq> []" by (simp add: trim_def is_space_def)
  have h2: "not_number (sessionId ?cs)" by (simp add: not_number_def)
  have h3: "\<forall>i. (HttpError True :: int reply) \<noteq> HttpOk (Some i)" by simp
  show ?thesis
    using h1 h2 h3
      failed_creation_aborts_send [OF h1 h2 h3, where replied = "HttpOk (Some ''Hi!'')"
        and b = "\<lparr>localStorage = [(''token'', ''t'')], effects = []\<rparr>"]
    by (simp add: handleSend_def handleSend_enter_def handleSend_created_def
        not_number_def trim_def is_space_def getItem_def fetch_def)
qed

text \<open>
  Claim C7. A call of \<open>handleSend\<close> with a text made of white space only (the empty text
  included) returns at once: the controller's state, the store and the list of effects
  (requests, writes, dispatched events) are exactly as before.
\<close>

theorem blank_send_is_noop:
  "\<forall>c\<in>set msg. is_space c \<Longrightarrow> handleSend msg created replied (cs, b) = (Returned, cs, b)"
  by (simp add: handleSend_def handleSend_enter_def trim_blank)

theorem blank_send_is_noop_witness:
  "list_all is_space ''   ''
   \<and> handleSend ''   '' NetworkError NetworkError
       (\<lparr>messages = [(user, ''hi'')], input = ''   '', sessionId = None, isLoading = False\<rparr>,
        \<lparr>localStorage = [(''token'', ''t'')], effects = []\<rparr>)
     = (Returned,
        \<lparr>messages = [(user, ''hi'')], input = ''   '', sessionId = None, isLoading = False\<rparr>,
        \<lparr>localStorage = [(''token'', ''t'')], effects = []\<rparr>)
   \<and> handleSend '''' NetworkError NetworkError
       (\<lparr>messages = [], input = '''', sessionId = Some 7, isLoading = False\<rparr>,
        \<lparr>localStorage = [], effects = []\<rparr>)
     = (Returned,
        \<lparr>messages = [], input = '''', sessionId = Some 7, isLoading = False\<rparr>,
        \<lparr>localStorage = [], effects = []\<rparr>)"
proof -
  have h: "\<forall>c\<in>set ''   ''. is_space c" by (simp add: is_space_def)
  have e: "\<forall>c\<in>set ''''. is_space c" by simp
  show ?thesis
    using h [folded list_all_iff]
      blank_send_is_noop [OF h, where created = NetworkError and replied = NetworkError
        and cs = "\<lparr>messages = [(user, ''hi'')], input = ''   '', sessionId = None,
          isLoading = False\<rparr>"
        and b = "\<lparr>localStorage = [(''token'', ''t'')], effects = []\<rparr>"]
      blank_send_is_noop [OF e, where created = NetworkError and replied = NetworkError
        and cs = "\<lparr>messages = [], input = '''', sessionId = Some 7, isLoading = False\<rparr>"
        and b = "\<lparr>localStorage = [], effects = []\<rparr>"]
    by simp
qed

section \<open>Clearing all sessions\<close>

text \<open>
  Claim C4, as the code has it. After a call of the clear-all handler made while a
  credential is stored, whose bulk-delete request is answered (with any status, 2xx or
  not): the snapshot is empty, the directory has no active identifier, \<open>activeSession\<close> is
  absent from the store, and after the removal \<open>sessionsUpdated\<close> and then
  \<open>createNewChat\<close> were dispatched, the latter exactly once.
\<close>

theorem clearAll_after_response:
  assumes "\<not> not_string (getItem ''token'' b)" and "res \<noteq> NetworkError"
  shows "case clearAll res (sb, b) of (r, sb', b') \<Rightarrow>
           r = Returned
           \<and> sessions sb' = []
           \<and> activeId sb' = None
           \<and> getItem ''activeSession'' b' = None
           \<and> new_effects b b'
               = [Fetch (DELETE_sessions (getItem ''token'' b)),
                  RemoveItem ''activeSession'',
                  Dispatch sessionsUpdated,
                  Dispatch createNewChat]
           \<and> length (filter (\<lambda>e. e = Dispatch createNewChat) (new_effects b b')) = 1"
  using assms
  by (cases res) (simp_all add: clearAll_def browser_simps new_effects_def Let_def)

theorem clearAll_after_response_witness:
  "\<not> not_string (getItem ''token''
        \<lparr>localStorage = [(''token'', ''t''), (''activeSession'', ''1'')], effects = []\<rparr>)
   \<and> (HttpError True :: unit reply) \<noteq> NetworkError
   \<and> clearAll (HttpError True)
       (\<lparr>sessions = [ChatSession 1 ''a''], activeId = Some 1, showConfirm = True, deleting = False\<rparr>,
        \<lparr>localStorage = [(''token'', ''t''), (''activeSession'', ''1'')], effects = []\<rparr>)
     = (Returned,
        \<lparr>sessions = [], activeId = None, showConfirm = False, deleting = False\<rparr>,
        \<lparr>localStorage = [(''token'', ''t'')],
         effects = [Fetch (DELETE_sessions (Some ''t'')), RemoveItem ''activeSession'',
                    Dispatch sessionsUpdated, Dispatch createNewChat]\<rparr>)"
proof -
  let ?b = "\<lparr>localStorage = [(''token'', ''t''), (''activeSession'', ''1'')], effects = []\<rparr>"
  have h1: "\<not> not_string (getItem ''token'' ?b)" by (simp add: not_string_def getItem_def)
  have h2: "(HttpError True :: unit reply) \<noteq> NetworkError" by simp
  show ?thesis
    using h1 h2
      clearAll_after_response [OF h1 h2, where sb = "\<lparr>sessions = [ChatSession 1 ''a''],
        activeId = Some 1, showConfirm = True, deleting = False\<rparr>"]
    by (simp add: clearAll_def not_string_def getItem_def fetch_def removeItem_def
        dispatchEvent_def)
qed

text \<open>
  Claim C4 as stated fails in two ways. With no credential stored the handler returns
  before making the request and clears nothing. With a credential, a rejected request
  throws out of the handler before the clearing statements.
\<close>

theorem clearAll_counterexample:
  "clearAll (HttpOk None)
     (\<lparr>sessions = [ChatSession 1 ''a''], activeId = Some 1, showConfirm = True, deleting = False\<rparr>,
      \<lparr>localStorage = [(''activeSession'', ''1'')], effects = []\<rparr>)
   = (Returned,
      \<lparr>sessions = [ChatSession 1 ''a''], activeId = Some 1, showConfirm = True, deleting = True\<rparr>,
      \<lparr>localStorage = [(''activeSession'', ''1'')], effects = []\<rparr>)
   \<and> clearAll NetworkError
     (\<lparr>sessions = [ChatSession 1 ''a''], activeId = Some 1, showConfirm = True, deleting = False\<rparr>,
      \<lparr>localStorage = [(''token'', ''t''), (''activeSession'', ''1'')], effects = []\<rparr>)
   = (Threw,
      \<lparr>sessions = [ChatSession 1 ''a''], activeId = Some 1, showConfirm = True, deleting = True\<rparr>,
      \<lparr>localStorage = [(''token'', ''t''), (''activeSession'', ''1'')],
       effects = [Fetch (DELETE_sessions (Some ''t''))]\<rparr>)"
  by (simp add: clearAll_def getItem_def fetch_def not_string_def)

section \<open>Write first, publish second\<close>



section \<open>Sends while a send is outstanding\<close>

text \<open>
  Claim C9 does not hold of the code. \<open>ChatInputBar.handleSend\<close> checks \<open>isLoading\<close> and
  the input and its button are disabled while it is set, but \<open>FeatureCards\<close> calls the send
  callback unconditionally and ChatScreen's \<open>handleSend\<close> does not look at \<open>isLoading\<close>.
  A user with a credential, no active session and an empty transcript clicks the third
  feature card: the call suspends on the session-creation request with \<open>isLoading\<close> set
  and the transcript still empty, so the cards stay rendered. A click on the fourth card
  is not ignored: it starts a second creation request. When the two creations succeed
  (with identifiers 11 and 12) each call goes on to its send request, and two send
  requests are in flight, neither answered. The send button, by contrast, can not be
  clicked in that state, and \<open>ChatInputBar.handleSend\<close> makes no call while \<open>isLoading\<close>
  is set.
\<close>

theorem second_send_while_sending:
  "steps [Click_card 2] (mounted \<lparr>localStorage = [(''token'', ''t'')], effects = []\<rparr>)
     = Some \<lparr>screen = \<lparr>messages = [], input = [], sessionId = None, isLoading = True\<rparr>,
             showSuggestions = False,
             awaiting = [Await_create (cards ! 2)],
             page = \<lparr>localStorage = [(''token'', ''t'')],
                     effects = [Fetch (POST_sessions (Some ''t'') (Some (cards ! 2)))]\<rparr>\<rparr>
   \<and> steps [Click_card 2, Click_card 3]
       (mounted \<lparr>localStorage = [(''token'', ''t'')], effects = []\<rparr>)
     = Some \<lparr>screen = \<lparr>messages = [], input = [], sessionId = None, isLoading = True\<rparr>,
             showSuggestions = False,
             awaiting = [Await_create (cards ! 2), Await_create (cards ! 3)],
             page = \<lparr>localStorage = [(''token'', ''t'')],
                     effects = [Fetch (POST_sessions (Some ''t'') (Some (cards ! 2))),
                                Fetch (POST_sessions (Some ''t'') (Some (cards ! 3)))]\<rparr>\<rparr>
   \<and> steps [Click_card 2, Click_card 3, Created 0 (HttpOk (Some 11)), Created 1 (HttpOk (Some 12))]
       (mounted \<lparr>localStorage = [(''token'', ''t'')], effects = []\<rparr>)
     = Some \<lparr>screen = \<lparr>messages = [(user, cards ! 2), (user, cards ! 3)], input = [],
                       sessionId = Some 12, isLoading = True\<rparr>,
             showSuggestions = False,
             awaiting = [Await_send 11 (cards ! 2), Await_send 12 (cards ! 3)],
             page = \<lparr>localStorage = [(''token'', ''t''), (''activeSession'', String 12)],
                     effects = [Fetch (POST_sessions (Some ''t'') (Some (cards ! 2))),
                                Fetch (POST_sessions (Some ''t'') (Some (cards ! 3))),
                                SetItem ''activeSession'' (String 11),
                                Dispatch sessionsUpdated,
                                Fetch (POST_message (Some ''t'') 11 (cards ! 2)),
                                SetItem ''activeSession'' (String 12),
                                Dispatch sessionsUpdated,
                                Fetch (POST_message (Some ''t'') 12 (cards ! 3))]\<rparr>\<rparr>
   \<and> steps [Click_card 2, Click_send]
       (mounted \<lparr>localStorage = [(''token'', ''t'')], effects = []\<rparr>) = None
   \<and> ChatInputBar_handleSend (cards ! 3) True = []"
  by (simp add: mounted_def FeatureCards_onClick_def ChatInputBar_handleSend_def cards_def
      handleSend_enter_def handleSend_created_def handleSend_post_def not_number_def trim_def
      is_space_def getItem_def fetch_def setItem_def dispatchEvent_def)

section \<open>Empty responses\<close>

text \<open>
  Claim C10. A fetched pair whose response is the empty string contributes its \<open>user\<close>
  entry and nothing else to the transcript, wherever it stands in the fetched list.
\<close>

theorem empty_response_no_bot_entry:
  "response m = Some [] \<Longrightarrow>
     flatten (before @ m # after) = flatten before @ (user, message m) # flatten after"
  by (simp add: flatten_append flatten_Cons not_string_def)

theorem empty_response_no_bot_entry_witness:
  "response (Exchange ''C'' (Some [])) = Some []
   \<and> flatten ([Exchange ''A'' (Some ''B'')] @ Exchange ''C'' (Some []) # [Exchange ''D'' None])
     = [(user, ''A''), (bot, ''B''), (user, ''C''), (user, ''D'')]"
proof -
  have h: "response (Exchange ''C'' (Some [])) = Some []" by simp
  show ?thesis
    using h empty_response_no_bot_entry
      [OF h, of "[Exchange ''A'' (Some ''B'')]" "[Exchange ''D'' None]"]
    by (simp add: flatten_Nil flatten_Cons not_string_def)
qed

end
